theory Spec2Isabelle
  imports Main
begin

section \<open>Python values, exceptions and dictionaries\<close>

text \<open>
  The program is \<^verbatim>\<open>student_management.py\<close>: one class,
  \<^verbatim>\<open>StudentManagementSystem\<close>, over the standard modules \<^verbatim>\<open>csv\<close>,
  \<^verbatim>\<open>json\<close>, \<^verbatim>\<open>os\<close> and \<^verbatim>\<open>pathlib\<close>. The library functions are
  modelled as CPython 3.11 on POSIX runs them. A Python \<^verbatim>\<open>str\<close> is a \<open>string\<close>:
  a HOL character stands for the code point of the same number, so the model covers
  the code points below 256. Floating point numbers are not modelled.
\<close>

datatype pyval =
    PNone
  | PBool bool
  | PInt int
  | PStr string
  | PList "pyval list"
  | PDict "(string option \<times> pyval) list"

text \<open>
  A dictionary keeps its keys in insertion order. The keys of this program are strings,
  and \<^verbatim>\<open>None\<close> where \<^verbatim>\<open>csv.DictReader\<close> stores the surplus fields of a long row.
\<close>

type_synonym pykey = "string option"
type_synonym pydict = "(pykey \<times> pyval) list"

datatype exn =
    ValueError string
  | TypeError string
  | KeyError pykey
  | FileNotFoundError string
  | JSONDecodeError string
  | CsvError string
  | AttributeError string
  | NotModelled string

text \<open>
  Sequencing: an exception of the first computation ends the whole, as a raise does.
\<close>

definition andthen :: "exn + 'a \<Rightarrow> ('a \<Rightarrow> exn + 'b) \<Rightarrow> exn + 'b" where
  "andthen m f = (case m of Inl e \<Rightarrow> Inl e | Inr x \<Rightarrow> f x)"

definition ord :: "char \<Rightarrow> nat" where
  "ord c = of_char c"

definition chr :: "nat \<Rightarrow> char" where
  "chr n = char_of n"

definition dict_contains :: "pykey \<Rightarrow> pydict \<Rightarrow> bool" where
  "dict_contains k d = (k \<in> set (map fst d))"

definition dict_getitem :: "pydict \<Rightarrow> pykey \<Rightarrow> exn + pyval" where
  "dict_getitem d k = (case map_of d k of None \<Rightarrow> Inl (KeyError k) | Some v \<Rightarrow> Inr v)"

fun dict_setitem :: "pydict \<Rightarrow> pykey \<Rightarrow> pyval \<Rightarrow> pydict" where
  "dict_setitem [] k v = [(k, v)]"
| "dict_setitem ((k', v') # d) k v =
     (if k' = k then (k, v) # d else (k', v') # dict_setitem d k v)"

definition dict_update :: "pydict \<Rightarrow> pydict \<Rightarrow> pydict" where
  "dict_update d patch = foldl (\<lambda>acc (k, v). dict_setitem acc k v) d patch"

definition dict_delitem :: "pydict \<Rightarrow> pykey \<Rightarrow> exn + pydict" where
  "dict_delitem d k =
     (if dict_contains k d then Inr (filter (\<lambda>(k', v). k' \<noteq> k) d) else Inl (KeyError k))"

text \<open>\<^verbatim>\<open>dict(pairs)\<close>: a later pair with a key already seen replaces the value in place.\<close>

definition dict_of_pairs :: "(pykey \<times> pyval) list \<Rightarrow> pydict" where
  "dict_of_pairs ps = dict_update [] ps"

text \<open>Truth value testing, as \<^verbatim>\<open>not x\<close> uses it.\<close>

fun truthy :: "pyval \<Rightarrow> bool" where
  "truthy PNone = False"
| "truthy (PBool b) = b"
| "truthy (PInt n) = (n \<noteq> 0)"
| "truthy (PStr s) = (s \<noteq> [])"
| "truthy (PList xs) = (xs \<noteq> [])"
| "truthy (PDict d) = (d \<noteq> [])"

text \<open>The name of the type of a value, as the messages of \<^verbatim>\<open>TypeError\<close> print it.\<close>

fun type_name :: "pyval \<Rightarrow> string" where
  "type_name PNone = ''NoneType''"
| "type_name (PBool b) = ''bool''"
| "type_name (PInt i) = ''int''"
| "type_name (PStr s) = ''str''"
| "type_name (PList xs) = ''list''"
| "type_name (PDict d) = ''dict''"

definition quoted :: "string \<Rightarrow> string" where
  "quoted s = [CHR 0x27] @ s @ [CHR 0x27]"

fun isinstance_str :: "pyval \<Rightarrow> bool" where
  "isinstance_str (PStr s) = True"
| "isinstance_str v = False"

section \<open>Strings: \<^verbatim>\<open>lower\<close>, \<^verbatim>\<open>in\<close>, \<^verbatim>\<open>repr\<close>, \<^verbatim>\<open>str\<close>, \<^verbatim>\<open>int\<close>\<close>

definition lower_char :: "char \<Rightarrow> char" where
  "lower_char c =
     (let n = ord c in
      if (65 \<le> n \<and> n \<le> 90) \<or> (192 \<le> n \<and> n \<le> 222 \<and> n \<noteq> 215) then chr (n + 32) else c)"

definition lower :: "string \<Rightarrow> string" where
  "lower s = map lower_char s"

text \<open>\<^verbatim>\<open>a in b\<close> on two strings: \<open>a\<close> occurs in \<open>b\<close> as a contiguous run.\<close>

fun is_prefix :: "string \<Rightarrow> string \<Rightarrow> bool" where
  "is_prefix [] ys = True"
| "is_prefix (x # xs) [] = False"
| "is_prefix (x # xs) (y # ys) = (x = y \<and> is_prefix xs ys)"

fun str_contains :: "string \<Rightarrow> string \<Rightarrow> bool" where
  "str_contains a [] = (a = [])"
| "str_contains a (y # ys) = (is_prefix a (y # ys) \<or> str_contains a ys)"

definition hex_digit :: "nat \<Rightarrow> char" where
  "hex_digit n = (if n < 10 then chr (48 + n) else chr (87 + n))"

definition hex2 :: "nat \<Rightarrow> string" where
  "hex2 n = [hex_digit (n div 16), hex_digit (n mod 16)]"

text \<open>
  \<^verbatim>\<open>repr\<close> of a string: single quotes, unless the string holds a single quote and no
  double quote; the quote and the backslash are escaped, so are tab, newline, return and
  every code point that is not printable (below 32, 127 to 160, and 173).
\<close>

definition repr_quote :: "string \<Rightarrow> char" where
  "repr_quote s =
     (if CHR 0x27 \<in> set s \<and> CHR 0x22 \<notin> set s then CHR 0x22 else CHR 0x27)"

definition repr_char :: "char \<Rightarrow> char \<Rightarrow> string" where
  "repr_char q c =
     (let n = ord c in
      if c = q \<or> c = CHR 0x5C then [CHR 0x5C, c]
      else if n = 9 then [CHR 0x5C, CHR ''t'']
      else if n = 10 then [CHR 0x5C, CHR ''n'']
      else if n = 13 then [CHR 0x5C, CHR ''r'']
      else if n < 32 \<or> (127 \<le> n \<and> n \<le> 160) \<or> n = 173 then [CHR 0x5C, CHR ''x''] @ hex2 n
      else [c])"

definition repr_str :: "string \<Rightarrow> string" where
  "repr_str s = (let q = repr_quote s in [q] @ concat (map (repr_char q) s) @ [q])"

fun dec_nat :: "nat \<Rightarrow> string" where
  "dec_nat n = (if n < 10 then [chr (48 + n)] else dec_nat (n div 10) @ [chr (48 + n mod 10)])"

declare dec_nat.simps [simp del]

definition dec_int :: "int \<Rightarrow> string" where
  "dec_int i = (if i < 0 then CHR ''-'' # dec_nat (nat (- i)) else dec_nat (nat i))"

fun join :: "string \<Rightarrow> string list \<Rightarrow> string" where
  "join sep [] = []"
| "join sep [x] = x"
| "join sep (x # y # zs) = x @ sep @ join sep (y # zs)"

definition repr_key :: "pykey \<Rightarrow> string" where
  "repr_key k = (case k of None \<Rightarrow> ''None'' | Some s \<Rightarrow> repr_str s)"

fun repr :: "pyval \<Rightarrow> string" where
  "repr PNone = ''None''"
| "repr (PBool b) = (if b then ''True'' else ''False'')"
| "repr (PInt i) = dec_int i"
| "repr (PStr s) = repr_str s"
| "repr (PList xs) = ''['' @ join '', '' (map repr xs) @ '']''"
| "repr (PDict d) =
     ''{'' @ join '', '' (map (\<lambda>kv. repr_key (fst kv) @ '': '' @ repr (snd kv)) d) @ ''}''"

text \<open>\<^verbatim>\<open>str(x)\<close>: the string itself, and \<^verbatim>\<open>repr\<close> for every other value.\<close>

definition str :: "pyval \<Rightarrow> string" where
  "str v = (case v of PStr s \<Rightarrow> s | _ \<Rightarrow> repr v)"

text \<open>
  \<^verbatim>\<open>int(x)\<close>. On a string: white space on both sides (tab to carriage return, space,
  and the two white space code points 133 and 160 above ASCII), one optional sign, then
  decimal digits with single underscores between them, at most 4300 digits. Anything
  else raises \<^verbatim>\<open>ValueError\<close>. \<^verbatim>\<open>None\<close>, lists and dictionaries raise
  \<^verbatim>\<open>TypeError\<close>.
\<close>

definition int_space :: "char \<Rightarrow> bool" where
  "int_space c = (let n = ord c in (9 \<le> n \<and> n \<le> 13) \<or> n = 32 \<or> n = 133 \<or> n = 160)"

definition is_digit :: "char \<Rightarrow> bool" where
  "is_digit c = (let n = ord c in 48 \<le> n \<and> n \<le> 57)"

definition digit_value :: "char \<Rightarrow> nat" where
  "digit_value c = ord c - 48"

text \<open>
  The scan of the digits: \<open>prev\<close> is the character before, \<open>digits\<close> counts the
  digits read and \<open>acc\<close> is their value. It stops at the first character that is neither
  a digit nor an underscore and returns what is left.
\<close>

fun scan_digits :: "string \<Rightarrow> char \<Rightarrow> nat \<Rightarrow> nat \<Rightarrow> (nat \<times> nat \<times> string) option" where
  "scan_digits [] prev digits acc =
     (if prev = CHR ''_'' then None else Some (digits, acc, []))"
| "scan_digits (c # cs) prev digits acc =
     (if c = CHR ''_'' then (if prev = CHR ''_'' then None else scan_digits cs c digits acc)
      else if is_digit c then scan_digits cs c (Suc digits) (acc * 10 + digit_value c)
      else if prev = CHR ''_'' then None
      else Some (digits, acc, c # cs))"

definition int_max_str_digits :: nat where
  "int_max_str_digits = 4300"

definition invalid_literal :: "string \<Rightarrow> exn" where
  "invalid_literal s = ValueError (''invalid literal for int() with base 10: '' @ repr_str s)"

definition exceeds_limit :: "nat \<Rightarrow> exn" where
  "exceeds_limit digits =
     ValueError (''Exceeds the limit (4300 digits) for integer string conversion: value has ''
                 @ dec_nat digits
                 @ '' digits; use sys.set_int_max_str_digits() to increase the limit'')"

definition int_of_str :: "string \<Rightarrow> exn + int" where
  "int_of_str s =
     (let t = dropWhile int_space s;
          neg = (t \<noteq> [] \<and> hd t = CHR ''-'');
          u = (if t \<noteq> [] \<and> (hd t = CHR ''+'' \<or> hd t = CHR ''-'') then tl t else t)
      in if u = [] \<or> hd u = CHR ''_'' then Inl (invalid_literal s)
         else case scan_digits u (CHR 0x00) 0 0 of
             None \<Rightarrow> Inl (invalid_literal s)
           | Some (digits, acc, rest) \<Rightarrow>
               if digits = 0 \<or> dropWhile int_space rest \<noteq> [] then Inl (invalid_literal s)
               else if digits > int_max_str_digits then Inl (exceeds_limit digits)
               else Inr (if neg then - int acc else int acc))"

fun py_int :: "pyval \<Rightarrow> exn + int" where
  "py_int (PStr s) = int_of_str s"
| "py_int (PInt i) = Inr i"
| "py_int (PBool b) = Inr (if b then 1 else 0)"
| "py_int v =
     Inl (TypeError (''int() argument must be a string, a bytes-like object or a real number, not ''
                     @ quoted (type_name v)))"

section \<open>Paths: \<^verbatim>\<open>pathlib.Path\<close> on POSIX\<close>

text \<open>
  A path is its root (empty, one slash, or two slashes when the text starts with exactly
  two) and its parts: the text split at slashes, without the empty parts and the dots.
\<close>

record path =
  root :: string
  parts :: "string list"

fun split_at :: "char \<Rightarrow> string \<Rightarrow> string \<Rightarrow> string list" where
  "split_at sep [] cur = [cur]"
| "split_at sep (c # cs) cur =
     (if c = sep then cur # split_at sep cs [] else split_at sep cs (cur @ [c]))"

definition splitroot :: "string \<Rightarrow> string" where
  "splitroot s =
     (let slashes = length (takeWhile (\<lambda>c. c = CHR ''/'') s)
      in if slashes = 0 then [] else if slashes = 2 then ''//'' else ''/'')"

definition Path :: "string \<Rightarrow> path" where
  "Path s = \<lparr> root = splitroot s,
              parts = filter (\<lambda>x. x \<noteq> [] \<and> x \<noteq> ''.'') (split_at (CHR ''/'') s []) \<rparr>"

definition is_absolute :: "path \<Rightarrow> bool" where
  "is_absolute p = (root p \<noteq> [])"

text \<open>\<^verbatim>\<open>a / b\<close> for a relative \<open>b\<close>, the only use the program makes of it.\<close>

definition joinpath :: "path \<Rightarrow> path \<Rightarrow> path" where
  "joinpath a b = \<lparr> root = root a, parts = parts a @ parts b \<rparr>"

definition path_str :: "path \<Rightarrow> string" where
  "path_str p =
     (if root p = [] \<and> parts p = [] then ''.'' else root p @ join ''/'' (parts p))"

definition name :: "path \<Rightarrow> string" where
  "name p = (if parts p = [] then [] else last (parts p))"

text \<open>
  \<^verbatim>\<open>suffix\<close>: from the last dot of the name on, when that dot is neither the first
  nor the last character of the name.
\<close>

definition rfind_dot :: "string \<Rightarrow> nat option" where
  "rfind_dot s =
     (let after = length (takeWhile (\<lambda>c. c \<noteq> CHR ''.'') (rev s))
      in if after = length s then None else Some (length s - after - 1))"

definition suffix :: "path \<Rightarrow> string" where
  "suffix p =
     (case rfind_dot (name p) of
        None \<Rightarrow> []
      | Some i \<Rightarrow> if 0 < i \<and> i < length (name p) - 1 then drop i (name p) else [])"

section \<open>The world: files, working directory, standard output\<close>

text \<open>
  The file system maps the text of an absolute path to the text of a regular file.
  Directories are not modelled: creating one has no effect and never fails, and no path
  names one. Permissions, encodings and a full disk are outside the model. What
  \<^verbatim>\<open>print\<close> writes is kept as a list of events; \<^verbatim>\<open>tabulate\<close> is an event with its
  rows and headers, its layout is not modelled.
\<close>

datatype event =
    Print string
  | Tabulate "pyval list" "string list"

record world =
  files :: "string \<Rightarrow> string option"
  cwd :: string
  stdout :: "event list"

definition print :: "string \<Rightarrow> world \<Rightarrow> world" where
  "print s w = w\<lparr>stdout := stdout w @ [Print s]\<rparr>"

definition not_a_path :: exn where
  "not_a_path = TypeError ''expected str, bytes or os.PathLike object, not NoneType''"

text \<open>
  Reading in text mode with the default \<^verbatim>\<open>newline\<close>: a carriage return, alone or
  before a line feed, is read as one line feed.
\<close>

fun universal_newlines :: "string \<Rightarrow> string" where
  "universal_newlines [] = []"
| "universal_newlines [c] = (if c = CHR 0x0D then [CHR 0x0A] else [c])"
| "universal_newlines (c # d # cs) =
     (if c = CHR 0x0D \<and> d = CHR 0x0A then CHR 0x0A # universal_newlines cs
      else if c = CHR 0x0D then CHR 0x0A # universal_newlines (d # cs)
      else c # universal_newlines (d # cs))"

definition open_read :: "world \<Rightarrow> string option \<Rightarrow> exn + string" where
  "open_read w f =
     (case f of
        None \<Rightarrow> Inl not_a_path
      | Some p \<Rightarrow>
          (case files w p of
             None \<Rightarrow> Inl (FileNotFoundError p)
           | Some text \<Rightarrow> Inr (universal_newlines text)))"

text \<open>Iterating a text file: the lines, each with its line feed, the last one maybe without.\<close>

fun file_lines :: "string \<Rightarrow> string \<Rightarrow> string list" where
  "file_lines [] cur = (if cur = [] then [] else [cur])"
| "file_lines (c # cs) cur =
     (if c = CHR 0x0A then (cur @ [c]) # file_lines cs [] else file_lines cs (cur @ [c]))"

definition getsize :: "world \<Rightarrow> string option \<Rightarrow> exn + nat" where
  "getsize w f =
     (case f of
        None \<Rightarrow> Inl (TypeError ''stat: path should be string, bytes, os.PathLike or integer, not NoneType'')
      | Some p \<Rightarrow>
          (case files w p of
             None \<Rightarrow> Inl (FileNotFoundError p)
           | Some text \<Rightarrow> Inr (length text)))"

definition write_file :: "string \<Rightarrow> string \<Rightarrow> world \<Rightarrow> world" where
  "write_file p text w = w\<lparr>files := (files w)(p \<mapsto> text)\<rparr>"

definition file_text :: "world \<Rightarrow> string \<Rightarrow> string" where
  "file_text w p = (case files w p of None \<Rightarrow> [] | Some text \<Rightarrow> text)"

section \<open>The \<^verbatim>\<open>csv\<close> module, dialect \<^verbatim>\<open>excel\<close>\<close>

subsection \<open>Writing\<close>

text \<open>
  A field is written as it is, \<^verbatim>\<open>None\<close> as the empty text, any other value through
  \<^verbatim>\<open>str\<close>. A field that holds the delimiter, the quote or a line break is quoted, with
  its quotes doubled. A row of one empty field is written as two quotes. The line ends
  with carriage return and line feed.
\<close>

definition field_text :: "pyval \<Rightarrow> string" where
  "field_text v = (case v of PStr s \<Rightarrow> s | PNone \<Rightarrow> [] | _ \<Rightarrow> str v)"

definition special :: "char \<Rightarrow> bool" where
  "special c = (c = CHR '','' \<or> c = CHR 0x22 \<or> c = CHR 0x0D \<or> c = CHR 0x0A)"

definition double_quotes :: "string \<Rightarrow> string" where
  "double_quotes s = concat (map (\<lambda>c. if c = CHR 0x22 then [c, c] else [c]) s)"

definition write_field :: "string \<Rightarrow> string" where
  "write_field s =
     (if list_ex special s then [CHR 0x22] @ double_quotes s @ [CHR 0x22] else s)"

definition lineterminator :: string where
  "lineterminator = [CHR 0x0D, CHR 0x0A]"

definition writerow :: "pyval list \<Rightarrow> string" where
  "writerow values =
     (let texts = map field_text values
      in (if texts = [[]] then [CHR 0x22, CHR 0x22] else join '','' (map write_field texts))
         @ lineterminator)"

text \<open>
  \<^verbatim>\<open>DictWriter\<close>: a key of the row that is no field name raises \<^verbatim>\<open>ValueError\<close>,
  whose message names the key; a field name that is no key of the row is written empty.
  When several keys are wrong, Python names them in the order of a set, which is not
  fixed; the model names them in the order of the row.
\<close>

definition dict_to_list :: "string list \<Rightarrow> pydict \<Rightarrow> exn + pyval list" where
  "dict_to_list fieldnames rowdict =
     (let wrong_fields = filter (\<lambda>k. k \<notin> set (map Some fieldnames)) (map fst rowdict)
      in if wrong_fields \<noteq> []
         then Inl (ValueError (''dict contains fields not in fieldnames: ''
                               @ join '', '' (map repr_key wrong_fields)))
         else Inr (map (\<lambda>key. case map_of rowdict (Some key) of None \<Rightarrow> PStr [] | Some v \<Rightarrow> v)
                     fieldnames))"

definition dict_writerow :: "string list \<Rightarrow> pydict \<Rightarrow> exn + string" where
  "dict_writerow fieldnames rowdict =
     andthen (dict_to_list fieldnames rowdict) (\<lambda>values. Inr (writerow values))"

definition writeheader :: "string list \<Rightarrow> string" where
  "writeheader fieldnames = writerow (map PStr fieldnames)"

text \<open>
  \<^verbatim>\<open>writerows\<close> writes row after row. The result is the text written and the exception
  that stopped it, if any: the rows before the failing one are in the file.
\<close>

fun dict_writerows :: "string list \<Rightarrow> pydict list \<Rightarrow> string \<times> exn option" where
  "dict_writerows fieldnames [] = ([], None)"
| "dict_writerows fieldnames (r # rs) =
     (case dict_writerow fieldnames r of
        Inl e \<Rightarrow> ([], Some e)
      | Inr line \<Rightarrow> (case dict_writerows fieldnames rs of (text, e) \<Rightarrow> (line @ text, e)))"

subsection \<open>Reading\<close>

text \<open>
  The reader is the state machine of the module. No escape character is set, so the
  states for it are never entered and are left out. A field longer than 131072
  characters raises \<^verbatim>\<open>csv.Error\<close>.
\<close>

datatype parser_state =
    START_RECORD | START_FIELD | IN_FIELD | IN_QUOTED_FIELD | QUOTE_IN_QUOTED_FIELD | EAT_CRNL

record reader =
  state :: parser_state
  row :: "string list"
  field :: string

definition parse_reset :: reader where
  "parse_reset = \<lparr> state = START_RECORD, row = [], field = [] \<rparr>"

definition field_limit :: nat where
  "field_limit = 131072"

definition parse_add_char :: "reader \<Rightarrow> char \<Rightarrow> exn + reader" where
  "parse_add_char r c =
     (if length (field r) \<ge> field_limit then Inl (CsvError ''field larger than field limit (131072)'')
      else Inr (r\<lparr>field := field r @ [c]\<rparr>))"

definition parse_save_field :: "reader \<Rightarrow> reader" where
  "parse_save_field r = r\<lparr>row := row r @ [field r], field := []\<rparr>"

definition is_newline :: "char \<Rightarrow> bool" where
  "is_newline c = (c = CHR 0x0A \<or> c = CHR 0x0D)"

text \<open>One step on a character of the line; \<open>None\<close> is the end of the line.\<close>

definition start_field :: "reader \<Rightarrow> char option \<Rightarrow> exn + reader" where
  "start_field r c =
     (case c of
        None \<Rightarrow> Inr ((parse_save_field r)\<lparr>state := START_RECORD\<rparr>)
      | Some ch \<Rightarrow>
          if is_newline ch then Inr ((parse_save_field r)\<lparr>state := EAT_CRNL\<rparr>)
          else if ch = CHR 0x22 then Inr (r\<lparr>state := IN_QUOTED_FIELD\<rparr>)
          else if ch = CHR '','' then Inr (parse_save_field r)
          else andthen (parse_add_char r ch) (\<lambda>r'. Inr (r'\<lparr>state := IN_FIELD\<rparr>)))"

definition parse_process_char :: "reader \<Rightarrow> char option \<Rightarrow> exn + reader" where
  "parse_process_char r c =
     (case state r of
        START_RECORD \<Rightarrow>
          (case c of
             None \<Rightarrow> Inr r
           | Some ch \<Rightarrow>
               if is_newline ch then Inr (r\<lparr>state := EAT_CRNL\<rparr>)
               else start_field (r\<lparr>state := START_FIELD\<rparr>) c)
      | START_FIELD \<Rightarrow> start_field r c
      | IN_FIELD \<Rightarrow>
          (case c of
             None \<Rightarrow> Inr ((parse_save_field r)\<lparr>state := START_RECORD\<rparr>)
           | Some ch \<Rightarrow>
               if is_newline ch then Inr ((parse_save_field r)\<lparr>state := EAT_CRNL\<rparr>)
               else if ch = CHR '','' then Inr ((parse_save_field r)\<lparr>state := START_FIELD\<rparr>)
               else parse_add_char r ch)
      | IN_QUOTED_FIELD \<Rightarrow>
          (case c of
             None \<Rightarrow> Inr r
           | Some ch \<Rightarrow>
               if ch = CHR 0x22 then Inr (r\<lparr>state := QUOTE_IN_QUOTED_FIELD\<rparr>)
               else parse_add_char r ch)
      | QUOTE_IN_QUOTED_FIELD \<Rightarrow>
          (case c of
             None \<Rightarrow> Inr ((parse_save_field r)\<lparr>state := START_RECORD\<rparr>)
           | Some ch \<Rightarrow>
               if ch = CHR 0x22
               then andthen (parse_add_char r ch) (\<lambda>r'. Inr (r'\<lparr>state := IN_QUOTED_FIELD\<rparr>))
               else if ch = CHR '','' then Inr ((parse_save_field r)\<lparr>state := START_FIELD\<rparr>)
               else if is_newline ch then Inr ((parse_save_field r)\<lparr>state := EAT_CRNL\<rparr>)
               else andthen (parse_add_char r ch) (\<lambda>r'. Inr (r'\<lparr>state := IN_FIELD\<rparr>)))
      | EAT_CRNL \<Rightarrow>
          (case c of
             None \<Rightarrow> Inr (r\<lparr>state := START_RECORD\<rparr>)
           | Some ch \<Rightarrow>
               if is_newline ch then Inr r
               else Inl (CsvError (''new-line character seen in unquoted field - ''
                                   @ ''do you need to open the file with newline='' @ [CHR 0x27, CHR 0x27]
                                   @ ''?''))))"

fun process_chars :: "reader \<Rightarrow> string \<Rightarrow> exn + reader" where
  "process_chars r [] = Inr r"
| "process_chars r (c # cs) =
     andthen (parse_process_char r (Some c)) (\<lambda>r'. process_chars r' cs)"

definition process_line :: "reader \<Rightarrow> string \<Rightarrow> exn + reader" where
  "process_line r line = andthen (process_chars r line) (\<lambda>r'. parse_process_char r' None)"

text \<open>
  All the rows of a reader over the lines of a file. A row ends when the machine is back
  at the start of a record; at the end of the input an open field is saved as the last
  row. The field \<open>row\<close> holds the fields saved so far (\<^verbatim>\<open>self->fields\<close>). The reader is consumed row by row, so the result is the rows read before the
  first error, and that error if there is one.
\<close>

fun read_rows :: "reader \<Rightarrow> string list \<Rightarrow> string list list \<times> exn option" where
  "read_rows r [] =
     (if field r \<noteq> [] \<or> state r = IN_QUOTED_FIELD then ([row (parse_save_field r)], None)
      else ([], None))"
| "read_rows r (l # ls) =
     (case process_line r l of
        Inl e \<Rightarrow> ([], Some e)
      | Inr r' \<Rightarrow>
          if state r' \<noteq> START_RECORD then read_rows r' ls
          else (case read_rows parse_reset ls of (rows, e) \<Rightarrow> (row r' # rows, e)))"

definition csv_reader :: "string \<Rightarrow> string list list \<times> exn option" where
  "csv_reader text = read_rows parse_reset (file_lines text [])"

text \<open>
  \<^verbatim>\<open>DictReader\<close>: the first row holds the field names; an empty row is skipped; a short
  row is filled with \<^verbatim>\<open>None\<close>, the surplus of a long row is a list under the key
  \<^verbatim>\<open>None\<close>.
\<close>

definition row_dict :: "string list \<Rightarrow> string list \<Rightarrow> pydict" where
  "row_dict fieldnames values =
     (let d = dict_of_pairs (zip (map Some fieldnames) (map PStr values));
          lf = length fieldnames;
          lr = length values
      in if lf < lr then dict_setitem d None (PList (map PStr (drop lf values)))
         else if lf > lr then foldl (\<lambda>acc key. dict_setitem acc (Some key) PNone) d (drop lr fieldnames)
         else d)"

definition DictReader :: "string \<Rightarrow> pydict list \<times> exn option" where
  "DictReader text =
     (case csv_reader text of
        ([], e) \<Rightarrow> ([], e)
      | (fieldnames # rows, e) \<Rightarrow> (map (row_dict fieldnames) (filter (\<lambda>values. values \<noteq> []) rows), e))"

section \<open>The \<^verbatim>\<open>json\<close> module\<close>

subsection \<open>Encoding\<close>

text \<open>
  \<^verbatim>\<open>json.dump(data, file, indent=2)\<close>. A string is written between double quotes;
  the quote and the backslash are escaped, and every character outside the printable
  ASCII range is written as an escape. A key that is \<^verbatim>\<open>None\<close> is written as the
  string \<^verbatim>\<open>null\<close>.
\<close>

definition hex4 :: "nat \<Rightarrow> string" where
  "hex4 n = [hex_digit (n div 4096), hex_digit (n div 256 mod 16),
             hex_digit (n div 16 mod 16), hex_digit (n mod 16)]"

definition escape_ascii :: "char \<Rightarrow> string" where
  "escape_ascii c =
     (let n = ord c in
      if c = CHR 0x22 then [CHR 0x5C, CHR 0x22]
      else if c = CHR 0x5C then [CHR 0x5C, CHR 0x5C]
      else if 32 \<le> n \<and> n \<le> 126 then [c]
      else if n = 8 then [CHR 0x5C, CHR ''b'']
      else if n = 12 then [CHR 0x5C, CHR ''f'']
      else if n = 10 then [CHR 0x5C, CHR ''n'']
      else if n = 13 then [CHR 0x5C, CHR ''r'']
      else if n = 9 then [CHR 0x5C, CHR ''t'']
      else [CHR 0x5C, CHR ''u''] @ hex4 n)"

definition encode_basestring_ascii :: "string \<Rightarrow> string" where
  "encode_basestring_ascii s = [CHR 0x22] @ concat (map escape_ascii s) @ [CHR 0x22]"

definition newline_indent :: "nat \<Rightarrow> string" where
  "newline_indent level = CHR 0x0A # replicate (2 * level) (CHR '' '')"

definition encode_key :: "pykey \<Rightarrow> string" where
  "encode_key k = encode_basestring_ascii (case k of None \<Rightarrow> ''null'' | Some s \<Rightarrow> s)"

fun iterencode :: "nat \<Rightarrow> pyval \<Rightarrow> string" where
  "iterencode level PNone = ''null''"
| "iterencode level (PBool b) = (if b then ''true'' else ''false'')"
| "iterencode level (PInt i) = dec_int i"
| "iterencode level (PStr s) = encode_basestring_ascii s"
| "iterencode level (PList xs) =
     (if xs = [] then ''[]''
      else ''['' @ newline_indent (Suc level)
           @ join ('','' @ newline_indent (Suc level)) (map (iterencode (Suc level)) xs)
           @ newline_indent level @ '']'')"
| "iterencode level (PDict d) =
     (if d = [] then ''{}''
      else ''{'' @ newline_indent (Suc level)
           @ join ('','' @ newline_indent (Suc level))
               (map (\<lambda>kv. encode_key (fst kv) @ '': '' @ iterencode (Suc level) (snd kv)) d)
           @ newline_indent level @ ''}'')"

definition json_dump :: "pyval \<Rightarrow> string" where
  "json_dump data = iterencode 0 data"

subsection \<open>Decoding\<close>

text \<open>
  \<^verbatim>\<open>json.load\<close>, as the scanner of the module reads a document. The messages of
  \<^verbatim>\<open>JSONDecodeError\<close> are shortened and carry no position. Two kinds of document are
  outside the model and end in \<open>NotModelled\<close>: one with a number that has a fraction
  or an exponent, or \<^verbatim>\<open>NaN\<close> or \<^verbatim>\<open>Infinity\<close>, and one with an escape for a code point
  above 255.
\<close>

definition json_space :: "char \<Rightarrow> bool" where
  "json_space c = (c = CHR '' '' \<or> c = CHR 0x09 \<or> c = CHR 0x0A \<or> c = CHR 0x0D)"

definition skip_ws :: "string \<Rightarrow> string" where
  "skip_ws s = dropWhile json_space s"

definition hex_value :: "char \<Rightarrow> nat option" where
  "hex_value c =
     (let n = ord c in
      if 48 \<le> n \<and> n \<le> 57 then Some (n - 48)
      else if 97 \<le> n \<and> n \<le> 102 then Some (n - 87)
      else if 65 \<le> n \<and> n \<le> 70 then Some (n - 55)
      else None)"

fun decode_hex :: "string \<Rightarrow> nat \<Rightarrow> nat option" where
  "decode_hex [] acc = Some acc"
| "decode_hex (c # cs) acc =
     (case hex_value c of None \<Rightarrow> None | Some v \<Rightarrow> decode_hex cs (acc * 16 + v))"

definition backslash_escape :: "char \<Rightarrow> char option" where
  "backslash_escape c =
     (if c = CHR 0x22 \<or> c = CHR 0x5C \<or> c = CHR ''/'' then Some c
      else if c = CHR ''b'' then Some (CHR 0x08)
      else if c = CHR ''f'' then Some (CHR 0x0C)
      else if c = CHR ''n'' then Some (CHR 0x0A)
      else if c = CHR ''r'' then Some (CHR 0x0D)
      else if c = CHR ''t'' then Some (CHR 0x09)
      else None)"

text \<open>The text after the opening quote; the result is the string and what follows its closing quote.\<close>

fun scanstring :: "string \<Rightarrow> string \<Rightarrow> exn + (string \<times> string)" where
  "scanstring [] acc = Inl (JSONDecodeError ''Unterminated string starting at'')"
| "scanstring (c # cs) acc =
     (if c = CHR 0x22 then Inr (acc, cs)
      else if c = CHR 0x5C then
        (case cs of
           [] \<Rightarrow> Inl (JSONDecodeError ''Unterminated string starting at'')
         | e # es \<Rightarrow>
             if e = CHR ''u'' then
               (if length es < 4 then Inl (JSONDecodeError ''Invalid uXXXX escape'')
                else case decode_hex (take 4 es) 0 of
                    None \<Rightarrow> Inl (JSONDecodeError ''Invalid uXXXX escape'')
                  | Some v \<Rightarrow>
                      if v < 256 then scanstring (drop 4 es) (acc @ [chr v])
                      else Inl (NotModelled ''escape of a code point above 255''))
             else
               (case backslash_escape e of
                  None \<Rightarrow> Inl (JSONDecodeError ''Invalid escape'')
                | Some x \<Rightarrow> scanstring es (acc @ [x])))
      else if ord c < 32 then Inl (JSONDecodeError ''Invalid control character at'')
      else scanstring cs (acc @ [c]))"

definition expecting_value :: exn where
  "expecting_value = JSONDecodeError ''Expecting value''"

text \<open>
  A number: an optional minus sign, then a zero or a digit from 1 to 9 followed by
  digits. A fraction (a dot and a digit) or an exponent (the letter e, an optional sign
  and a digit) after it makes a float. The integer is read by \<^verbatim>\<open>int\<close>, with its limit
  of 4300 digits.
\<close>

definition is_float_tail :: "string \<Rightarrow> bool" where
  "is_float_tail s =
     (case s of
        [] \<Rightarrow> False
      | c # cs \<Rightarrow>
          if c = CHR ''.'' then cs \<noteq> [] \<and> is_digit (hd cs)
          else if c = CHR ''e'' \<or> c = CHR ''E'' then
            (case cs of
               [] \<Rightarrow> False
             | d # ds \<Rightarrow>
                 if d = CHR ''+'' \<or> d = CHR ''-'' then ds \<noteq> [] \<and> is_digit (hd ds)
                 else is_digit d)
          else False)"

definition match_number :: "string \<Rightarrow> exn + (pyval \<times> string)" where
  "match_number s =
     (let neg = (s \<noteq> [] \<and> hd s = CHR ''-'');
          t = (if neg then tl s else s)
      in if t = [] \<or> \<not> is_digit (hd t) then Inl expecting_value
         else let digits = (if hd t = CHR ''0'' then ''0'' else takeWhile is_digit t);
                  rest = drop (length digits) t
              in if is_float_tail rest then Inl (NotModelled ''float'')
                 else andthen (int_of_str ((if neg then ''-'' else []) @ digits))
                        (\<lambda>i. Inr (PInt i, rest)))"

text \<open>
  The scanner. The first argument bounds the number of nested calls; \<open>json_loads\<close>
  starts it with more than any text needs, see \<open>json_loads_fuel\<close>.
\<close>

definition out_of_fuel :: exn where
  "out_of_fuel = NotModelled ''out of fuel''"

fun scan_once :: "nat \<Rightarrow> string \<Rightarrow> exn + (pyval \<times> string)"
  and parse_array :: "nat \<Rightarrow> string \<Rightarrow> pyval list \<Rightarrow> exn + (pyval \<times> string)"
  and parse_object :: "nat \<Rightarrow> string \<Rightarrow> pydict \<Rightarrow> exn + (pyval \<times> string)"
where
  "scan_once 0 s = Inl out_of_fuel"
| "scan_once (Suc n) s =
     (case s of
        [] \<Rightarrow> Inl expecting_value
      | c # cs \<Rightarrow>
          if c = CHR 0x22 then andthen (scanstring cs []) (\<lambda>(v, rest). Inr (PStr v, rest))
          else if c = CHR ''{'' then
            (let t = skip_ws cs
             in if t \<noteq> [] \<and> hd t = CHR ''}'' then Inr (PDict [], tl t)
                else parse_object n t [])
          else if c = CHR ''['' then
            (let t = skip_ws cs
             in if t \<noteq> [] \<and> hd t = CHR '']'' then Inr (PList [], tl t)
                else parse_array n t [])
          else if is_prefix ''null'' s then Inr (PNone, drop 4 s)
          else if is_prefix ''true'' s then Inr (PBool True, drop 4 s)
          else if is_prefix ''false'' s then Inr (PBool False, drop 5 s)
          else if is_prefix ''NaN'' s \<or> is_prefix ''Infinity'' s \<or> is_prefix ''-Infinity'' s
          then Inl (NotModelled ''float'')
          else match_number s)"
| "parse_array 0 s acc = Inl out_of_fuel"
| "parse_array (Suc n) s acc =
     andthen (scan_once n s) (\<lambda>(v, rest).
       case skip_ws rest of
         [] \<Rightarrow> Inl (JSONDecodeError ''Expecting , delimiter'')
       | c # cs \<Rightarrow>
           if c = CHR '']'' then Inr (PList (acc @ [v]), cs)
           else if c \<noteq> CHR '','' then Inl (JSONDecodeError ''Expecting , delimiter'')
           else parse_array n (skip_ws cs) (acc @ [v]))"
| "parse_object 0 s acc = Inl out_of_fuel"
| "parse_object (Suc n) s acc =
     (case s of
        [] \<Rightarrow> Inl (JSONDecodeError ''Expecting property name enclosed in double quotes'')
      | q # qs \<Rightarrow>
          if q \<noteq> CHR 0x22
          then Inl (JSONDecodeError ''Expecting property name enclosed in double quotes'')
          else
            andthen (scanstring qs []) (\<lambda>(key, rest).
              case skip_ws rest of
                [] \<Rightarrow> Inl (JSONDecodeError ''Expecting : delimiter'')
              | c # cs \<Rightarrow>
                  if c \<noteq> CHR '':'' then Inl (JSONDecodeError ''Expecting : delimiter'')
                  else
                    andthen (scan_once n (skip_ws cs)) (\<lambda>(v, rest').
                      case skip_ws rest' of
                        [] \<Rightarrow> Inl (JSONDecodeError ''Expecting , delimiter'')
                      | d # ds \<Rightarrow>
                          if d = CHR ''}'' then Inr (PDict (dict_setitem acc (Some key) v), ds)
                          else if d \<noteq> CHR '','' then Inl (JSONDecodeError ''Expecting , delimiter'')
                          else parse_object n (skip_ws ds) (dict_setitem acc (Some key) v))))"

definition json_loads :: "string \<Rightarrow> exn + pyval" where
  "json_loads s =
     andthen (scan_once (2 * length s + 2) (skip_ws s)) (\<lambda>(v, rest).
       if skip_ws rest \<noteq> [] then Inl (JSONDecodeError ''Extra data'') else Inr v)"

section \<open>The store object\<close>

text \<open>The attributes that \<^verbatim>\<open>__init__\<close> sets.\<close>

record sms =
  headers :: "string list"
  filename :: "string option"
  file_type :: "string option"
  default_filename :: string

definition init :: sms where
  "init = \<lparr> headers = [''id'', ''name'', ''age'', ''grade''], filename = None,
            file_type = None, default_filename = ''students.csv'' \<rparr>"

section \<open>\<^verbatim>\<open>validate_student_data\<close>\<close>

text \<open>
  The \<^verbatim>\<open>try\<close> block of the age check: \<^verbatim>\<open>int\<close> may raise, and the range check raises
  \<^verbatim>\<open>ValueError\<close> inside the same block.
\<close>

definition age_try :: "pyval \<Rightarrow> exn + unit" where
  "age_try v =
     (case py_int v of
        Inl e \<Rightarrow> Inl e
      | Inr age \<Rightarrow>
          if \<not> (5 \<le> age \<and> age \<le> 100) then Inl (ValueError ''Age must be between 5 and 100'')
          else Inr ())"

text \<open>\<^verbatim>\<open>except ValueError\<close>: every \<^verbatim>\<open>ValueError\<close> of the block is replaced, any other exception passes.\<close>

definition age_check :: "pyval \<Rightarrow> exn + unit" where
  "age_check v =
     (case age_try v of
        Inl (ValueError m) \<Rightarrow> Inl (ValueError ''Age must be a valid number'')
      | Inl e \<Rightarrow> Inl e
      | Inr u \<Rightarrow> Inr u)"

definition grades :: "pyval list" where
  "grades = [PStr ''A'', PStr ''B'', PStr ''C'', PStr ''D'', PStr ''F'']"

definition validate_student_data :: "sms \<Rightarrow> pydict \<Rightarrow> exn + bool" where
  "validate_student_data self student_data =
     (if \<not> list_all (\<lambda>key. dict_contains (Some key) student_data) (headers self)
      then Inl (ValueError (''All fields '' @ repr (PList (map PStr (headers self))) @ '' are required''))
      else
        andthen (dict_getitem student_data (Some ''id'')) (\<lambda>sid.
        if \<not> truthy sid \<or> \<not> isinstance_str sid
        then Inl (ValueError ''ID must be a non-empty string'')
        else
          andthen (dict_getitem student_data (Some ''name'')) (\<lambda>name.
          if \<not> truthy name \<or> \<not> isinstance_str name
          then Inl (ValueError ''Name must be a non-empty string'')
          else
            andthen (dict_getitem student_data (Some ''age'')) (\<lambda>age.
            andthen (age_check age) (\<lambda>u.
            andthen (dict_getitem student_data (Some ''grade'')) (\<lambda>grade.
            if grade \<notin> set grades
            then Inl (ValueError ''Grade must be one of: A, B, C, D, F'')
            else Inr True))))))"

section \<open>Operations of Python on the values\<close>

text \<open>
  What \<^verbatim>\<open>for x in v\<close>, \<^verbatim>\<open>v[key]\<close>, \<^verbatim>\<open>key in v\<close>, \<^verbatim>\<open>v[key] = x\<close>,
  \<^verbatim>\<open>v.update(d)\<close> and \<^verbatim>\<open>v.append(x)\<close> do on each kind of value, for a key that is a
  string: a JSON file may hold any value where the program expects a list of
  dictionaries.
\<close>

definition key_value :: "pykey \<Rightarrow> pyval" where
  "key_value k = (case k of None \<Rightarrow> PNone | Some s \<Rightarrow> PStr s)"

fun py_iter :: "pyval \<Rightarrow> exn + pyval list" where
  "py_iter (PList xs) = Inr xs"
| "py_iter (PDict d) = Inr (map (\<lambda>kv. key_value (fst kv)) d)"
| "py_iter (PStr s) = Inr (map (\<lambda>c. PStr [c]) s)"
| "py_iter v = Inl (TypeError (quoted (type_name v) @ '' object is not iterable''))"

fun py_getitem :: "pyval \<Rightarrow> string \<Rightarrow> exn + pyval" where
  "py_getitem (PDict d) k = dict_getitem d (Some k)"
| "py_getitem (PList xs) k = Inl (TypeError ''list indices must be integers or slices, not str'')"
| "py_getitem (PStr s) k = Inl (TypeError (''string indices must be integers, not '' @ quoted ''str''))"
| "py_getitem v k = Inl (TypeError (quoted (type_name v) @ '' object is not subscriptable''))"

fun py_in :: "string \<Rightarrow> pyval \<Rightarrow> exn + bool" where
  "py_in k (PDict d) = Inr (dict_contains (Some k) d)"
| "py_in k (PList xs) = Inr (PStr k \<in> set xs)"
| "py_in k (PStr s) = Inr (str_contains k s)"
| "py_in k v = Inl (TypeError (''argument of type '' @ quoted (type_name v) @ '' is not iterable''))"

fun py_setitem :: "pyval \<Rightarrow> string \<Rightarrow> pyval \<Rightarrow> exn + pyval" where
  "py_setitem (PDict d) k x = Inr (PDict (dict_setitem d (Some k) x))"
| "py_setitem (PList xs) k x = Inl (TypeError ''list indices must be integers or slices, not str'')"
| "py_setitem v k x =
     Inl (TypeError (quoted (type_name v) @ '' object does not support item assignment''))"

fun py_update :: "pyval \<Rightarrow> pydict \<Rightarrow> exn + pyval" where
  "py_update (PDict d) patch = Inr (PDict (dict_update d patch))"
| "py_update v patch =
     Inl (AttributeError (quoted (type_name v) @ '' object has no attribute '' @ quoted ''update''))"

fun py_append :: "pyval \<Rightarrow> pyval \<Rightarrow> exn + pyval" where
  "py_append (PList xs) x = Inr (PList (xs @ [x]))"
| "py_append v x =
     Inl (AttributeError (quoted (type_name v) @ '' object has no attribute '' @ quoted ''append''))"

text \<open>A comprehension: the elements in order, ended by the first exception.\<close>

fun map_exn :: "('a \<Rightarrow> exn + 'b) \<Rightarrow> 'a list \<Rightarrow> exn + 'b list" where
  "map_exn f [] = Inr []"
| "map_exn f (x # xs) = andthen (f x) (\<lambda>y. andthen (map_exn f xs) (\<lambda>ys. Inr (y # ys)))"

text \<open>
  A loop that changed the dictionaries of a list in place leaves the list with the new
  elements. Any other value that could be iterated to the end was empty, or held no
  dictionary and the loop body raised: it is unchanged.
\<close>

definition rebuild :: "pyval \<Rightarrow> pyval list \<Rightarrow> pyval" where
  "rebuild students elements = (case students of PList xs \<Rightarrow> PList elements | _ \<Rightarrow> students)"

section \<open>The methods of \<^verbatim>\<open>StudentManagementSystem\<close>\<close>

text \<open>
  A method takes the object and the world and returns how it ended (\<open>Inr\<close> for a
  return, \<open>Inl\<close> for the exception that left it) with the object and the world as they
  are at that point: what was assigned, written or printed before an exception stays.
\<close>

type_synonym 'a outcome = "(exn + 'a) \<times> sms \<times> world"

definition not_set :: exn where
  "not_set = ValueError ''File path not set. Call set_file_path() first''"

definition create_file_if_not_exists :: "sms \<Rightarrow> world \<Rightarrow> unit outcome" where
  "create_file_if_not_exists self w =
     (case filename self of
        None \<Rightarrow>
          (Inl (TypeError ''stat: path should be string, bytes, os.PathLike or integer, not NoneType''),
           self, w)
      | Some f \<Rightarrow>
          if files w f = None then
            (if file_type self = Some ''.csv''
             then (Inr (), self, write_file f (writerow (map PStr (headers self))) w)
             else (Inr (), self, write_file f ''[]'' w))
          else (Inr (), self, w))"

text \<open>
  The first lines of \<^verbatim>\<open>set_file_path\<close>: the default for an empty argument, and the
  path made absolute from the working directory.
\<close>

definition resolve :: "sms \<Rightarrow> world \<Rightarrow> string option \<Rightarrow> path" where
  "resolve self w file_path =
     (let file_path' = (case file_path of
                          None \<Rightarrow> default_filename self
                        | Some p \<Rightarrow> if p = [] then default_filename self else p);
          p = Path file_path'
      in if \<not> is_absolute p then joinpath (Path (cwd w)) p else p)"

definition set_file_path :: "sms \<Rightarrow> world \<Rightarrow> string option \<Rightarrow> unit outcome" where
  "set_file_path self w file_path =
     (let p = resolve self w file_path
      in if lower (suffix p) \<notin> set [''.csv'', ''.json'']
         then (Inl (ValueError ''File must be either CSV or JSON format''), self, w)
         else create_file_if_not_exists
                (self\<lparr>filename := Some (path_str p), file_type := Some (lower (suffix p))\<rparr>) w)"

definition read_json_file :: "sms \<Rightarrow> world \<Rightarrow> exn + pyval" where
  "read_json_file self w =
     andthen (getsize w (filename self)) (\<lambda>size.
       if size = 0 then Inr (PList [])
       else andthen (open_read w (filename self)) json_loads)"

definition write_json_file :: "sms \<Rightarrow> world \<Rightarrow> pyval \<Rightarrow> (exn + unit) \<times> world" where
  "write_json_file self w data =
     (case filename self of
        None \<Rightarrow> (Inl not_a_path, w)
      | Some f \<Rightarrow> (Inr (), write_file f (json_dump data) w))"

text \<open>
  The block that opens \<^verbatim>\<open>view_all_students\<close>, \<^verbatim>\<open>view_specific_columns\<close> and
  \<^verbatim>\<open>search_students\<close>: all the rows of the CSV file as dictionaries, or the value of
  the JSON file.
\<close>

definition load_students :: "sms \<Rightarrow> world \<Rightarrow> exn + pyval" where
  "load_students self w =
     (if file_type self = Some ''.csv'' then
        andthen (open_read w (filename self)) (\<lambda>text.
          case DictReader text of
            (rows, Some e) \<Rightarrow> Inl e
          | (rows, None) \<Rightarrow> Inr (PList (map PDict rows)))
      else read_json_file self w)"

text \<open>
  The block that writes the CSV file anew in four methods: the file is emptied, then the
  header and the rows are written, as far as they can be.
\<close>

definition rewrite_csv :: "sms \<Rightarrow> world \<Rightarrow> pydict list \<Rightarrow> (exn + unit) \<times> world" where
  "rewrite_csv self w students =
     (case filename self of
        None \<Rightarrow> (Inl not_a_path, w)
      | Some f \<Rightarrow>
          (case dict_writerows (headers self) students of
             (text, e) \<Rightarrow>
               ((case e of None \<Rightarrow> Inr () | Some x \<Rightarrow> Inl x),
                write_file f (writeheader (headers self) @ text) w)))"

definition add_student :: "sms \<Rightarrow> world \<Rightarrow> pydict \<Rightarrow> unit outcome" where
  "add_student self w student_data =
     (case filename self of
        None \<Rightarrow> (Inl not_set, self, w)
      | Some f \<Rightarrow>
          if f = [] then (Inl not_set, self, w)
          else
            (case validate_student_data self student_data of
               Inl e \<Rightarrow> (Inl e, self, w)
             | Inr ok \<Rightarrow>
                 if file_type self = Some ''.csv'' then
                   (case dict_writerow (headers self) student_data of
                      Inl e \<Rightarrow> (Inl e, self, write_file f (file_text w f) w)
                    | Inr line \<Rightarrow>
                        (Inr (), self,
                         print ''Student added successfully!'' (write_file f (file_text w f @ line) w)))
                 else
                   (case andthen (read_json_file self w) (\<lambda>students. py_append students (PDict student_data)) of
                      Inl e \<Rightarrow> (Inl e, self, w)
                    | Inr students \<Rightarrow>
                        (case write_json_file self w students of
                           (Inl e, w') \<Rightarrow> (Inl e, self, w')
                         | (Inr u, w') \<Rightarrow> (Inr (), self, print ''Student added successfully!'' w')))))"

text \<open>\<^verbatim>\<open>[[student[h] for h in headers] for student in students]\<close>\<close>

definition table_data :: "string list \<Rightarrow> pyval list \<Rightarrow> exn + pyval list" where
  "table_data hs students =
     map_exn (\<lambda>student. andthen (map_exn (py_getitem student) hs) (\<lambda>values. Inr (PList values)))
       students"

definition view_all_students :: "sms \<Rightarrow> world \<Rightarrow> unit outcome" where
  "view_all_students self w =
     (case filename self of
        None \<Rightarrow> (Inl not_set, self, w)
      | Some f \<Rightarrow>
          if f = [] then (Inl not_set, self, w)
          else
            (case load_students self w of
               Inl e \<Rightarrow> (Inl e, self, w)
             | Inr students \<Rightarrow>
                 if \<not> truthy students then (Inr (), self, print ''No students found!'' w)
                 else
                   (case andthen (py_iter students) (table_data (headers self)) of
                      Inl e \<Rightarrow> (Inl e, self, w)
                    | Inr rows \<Rightarrow>
                        (Inr (), self,
                         w\<lparr>stdout := stdout w @ [Print (CHR 0x0A # ''Student Records:''),
                                                 Tabulate rows (headers self)]\<rparr>))))"

text \<open>\<^verbatim>\<open>[student[col] for col in columns if col in student]\<close>\<close>

fun selected :: "pyval \<Rightarrow> string list \<Rightarrow> exn + pyval list" where
  "selected student [] = Inr []"
| "selected student (col # cols) =
     andthen (py_in col student) (\<lambda>present.
       if present
       then andthen (py_getitem student col) (\<lambda>v.
              andthen (selected student cols) (\<lambda>vs. Inr (v # vs)))
       else selected student cols)"

definition view_specific_columns :: "sms \<Rightarrow> world \<Rightarrow> string list \<Rightarrow> unit outcome" where
  "view_specific_columns self w columns =
     (case load_students self w of
        Inl e \<Rightarrow> (Inl e, self, w)
      | Inr students \<Rightarrow>
          if \<not> truthy students then (Inr (), self, print ''No students found!'' w)
          else
            (case andthen (py_iter students)
                    (map_exn (\<lambda>student. andthen (selected student columns) (\<lambda>r. Inr (PList r)))) of
               Inl e \<Rightarrow> (Inl e, self, w)
             | Inr rows \<Rightarrow>
                 (Inr (), self,
                  w\<lparr>stdout := stdout w @ [Print (CHR 0x0A # ''Selected Student Records:''),
                                          Tabulate rows columns]\<rparr>)))"

text \<open>
  The loop of \<^verbatim>\<open>update_student\<close> over the rows of the CSV file, with its two
  variables \<open>students\<close> and \<open>updated\<close>.
\<close>

fun update_rows ::
  "string \<Rightarrow> pydict \<Rightarrow> pydict list \<Rightarrow> pydict list \<Rightarrow> bool \<Rightarrow> exn + (pydict list \<times> bool)" where
  "update_rows student_id updated_data [] students updated = Inr (students, updated)"
| "update_rows student_id updated_data (student # rest) students updated =
     andthen (dict_getitem student (Some ''id'')) (\<lambda>v.
       if v = PStr student_id
       then update_rows student_id updated_data rest
              (students @ [dict_update student updated_data]) True
       else update_rows student_id updated_data rest (students @ [student]) updated)"

text \<open>The same loop over the elements of the value read from the JSON file.\<close>

fun update_values ::
  "string \<Rightarrow> pydict \<Rightarrow> pyval list \<Rightarrow> pyval list \<Rightarrow> bool \<Rightarrow> exn + (pyval list \<times> bool)" where
  "update_values student_id updated_data [] students updated = Inr (students, updated)"
| "update_values student_id updated_data (student # rest) students updated =
     andthen (py_getitem student ''id'') (\<lambda>v.
       if v = PStr student_id
       then andthen (py_update student updated_data) (\<lambda>student'.
              update_values student_id updated_data rest (students @ [student']) True)
       else update_values student_id updated_data rest (students @ [student]) updated)"

definition update_student :: "sms \<Rightarrow> world \<Rightarrow> string \<Rightarrow> pydict \<Rightarrow> unit outcome" where
  "update_student self w student_id updated_data =
     (if file_type self = Some ''.csv'' then
        (case open_read w (filename self) of
           Inl e \<Rightarrow> (Inl e, self, w)
         | Inr text \<Rightarrow>
             (case DictReader text of
                (rows, err) \<Rightarrow>
                  (case update_rows student_id updated_data rows [] False of
                     Inl e \<Rightarrow> (Inl e, self, w)
                   | Inr (students, updated) \<Rightarrow>
                       (case err of
                          Some e \<Rightarrow> (Inl e, self, w)
                        | None \<Rightarrow>
                            if updated then
                              (case rewrite_csv self w students of
                                 (Inl e, w') \<Rightarrow> (Inl e, self, w')
                               | (Inr u, w') \<Rightarrow>
                                   (Inr (), self, print ''Student updated successfully!'' w'))
                            else (Inr (), self, print ''Student not found!'' w)))))
      else
        (case read_json_file self w of
           Inl e \<Rightarrow> (Inl e, self, w)
         | Inr students \<Rightarrow>
             (case andthen (py_iter students)
                     (\<lambda>xs. update_values student_id updated_data xs [] False) of
                Inl e \<Rightarrow> (Inl e, self, w)
              | Inr (elements, updated) \<Rightarrow>
                  if updated then
                    (case write_json_file self w (rebuild students elements) of
                       (Inl e, w') \<Rightarrow> (Inl e, self, w')
                     | (Inr u, w') \<Rightarrow> (Inr (), self, print ''Student updated successfully!'' w'))
                  else (Inr (), self, print ''Student not found!'' w))))"

text \<open>The loop of \<^verbatim>\<open>delete_student\<close>, with its variables \<open>students\<close> and \<open>deleted\<close>.\<close>

fun delete_rows ::
  "string \<Rightarrow> pydict list \<Rightarrow> pydict list \<Rightarrow> bool \<Rightarrow> exn + (pydict list \<times> bool)" where
  "delete_rows student_id [] students deleted = Inr (students, deleted)"
| "delete_rows student_id (student # rest) students deleted =
     andthen (dict_getitem student (Some ''id'')) (\<lambda>v.
       if v \<noteq> PStr student_id
       then delete_rows student_id rest (students @ [student]) deleted
       else delete_rows student_id rest students True)"

text \<open>\<^verbatim>\<open>delete_student\<close> reads and writes the file as CSV, whatever \<open>file_type\<close> is.\<close>

definition delete_student :: "sms \<Rightarrow> world \<Rightarrow> string \<Rightarrow> unit outcome" where
  "delete_student self w student_id =
     (case open_read w (filename self) of
        Inl e \<Rightarrow> (Inl e, self, w)
      | Inr text \<Rightarrow>
          (case DictReader text of
             (rows, err) \<Rightarrow>
               (case delete_rows student_id rows [] False of
                  Inl e \<Rightarrow> (Inl e, self, w)
                | Inr (students, deleted) \<Rightarrow>
                    (case err of
                       Some e \<Rightarrow> (Inl e, self, w)
                     | None \<Rightarrow>
                         if deleted then
                           (case rewrite_csv self w students of
                              (Inl e, w') \<Rightarrow> (Inl e, self, w')
                            | (Inr u, w') \<Rightarrow>
                                (Inr (), self, print ''Student deleted successfully!'' w'))
                         else (Inr (), self, print ''Student not found!'' w)))))"

definition add_column :: "sms \<Rightarrow> world \<Rightarrow> string \<Rightarrow> unit outcome" where
  "add_column self w column_name0 =
     (let column_name = lower column_name0
      in if column_name \<in> set (map lower (headers self))
         then (Inr (), self, print ''Column already exists!'' w)
         else if file_type self = Some ''.csv'' then
           (case open_read w (filename self) of
              Inl e \<Rightarrow> (Inl e, self, w)
            | Inr text \<Rightarrow>
                (case DictReader text of
                   (rows, Some e) \<Rightarrow> (Inl e, self, w)
                 | (rows, None) \<Rightarrow>
                     (let students = map (\<lambda>student. dict_setitem student (Some column_name) (PStr [])) rows;
                          self' = self\<lparr>headers := headers self @ [column_name]\<rparr>
                      in case rewrite_csv self' w students of
                           (Inl e, w') \<Rightarrow> (Inl e, self', w')
                         | (Inr u, w') \<Rightarrow>
                             (Inr (), self',
                              print (''Column '' @ quoted column_name @ '' added successfully!'') w'))))
         else
           (case read_json_file self w of
              Inl e \<Rightarrow> (Inl e, self, w)
            | Inr students \<Rightarrow>
                (case andthen (py_iter students)
                        (map_exn (\<lambda>student. py_setitem student column_name (PStr []))) of
                   Inl e \<Rightarrow> (Inl e, self, w)
                 | Inr elements \<Rightarrow>
                     (let self' = self\<lparr>headers := headers self @ [column_name]\<rparr>
                      in case write_json_file self' w (rebuild students elements) of
                           (Inl e, w') \<Rightarrow> (Inl e, self', w')
                         | (Inr u, w') \<Rightarrow>
                             (Inr (), self',
                              print (''Column '' @ quoted column_name @ '' added successfully!'') w')))))"

text \<open>\<^verbatim>\<open>remove_column\<close> reads and writes the file as CSV, whatever \<open>file_type\<close> is.\<close>

definition remove_column :: "sms \<Rightarrow> world \<Rightarrow> string \<Rightarrow> unit outcome" where
  "remove_column self w column_name =
     (if column_name \<notin> set (headers self) then (Inr (), self, print ''Column does not exist!'' w)
      else if column_name = ''id'' then (Inr (), self, print ''Cannot remove ID column!'' w)
      else
        (case open_read w (filename self) of
           Inl e \<Rightarrow> (Inl e, self, w)
         | Inr text \<Rightarrow>
             (case DictReader text of
                (rows, err) \<Rightarrow>
                  (case map_exn (\<lambda>student. dict_delitem student (Some column_name)) rows of
                     Inl e \<Rightarrow> (Inl e, self, w)
                   | Inr students \<Rightarrow>
                       (case err of
                          Some e \<Rightarrow> (Inl e, self, w)
                        | None \<Rightarrow>
                            (let self' = self\<lparr>headers := remove1 column_name (headers self)\<rparr>
                             in case rewrite_csv self' w students of
                                  (Inl e, w') \<Rightarrow> (Inl e, self', w')
                                | (Inr u, w') \<Rightarrow>
                                    (Inr (), self',
                                     print (''Column '' @ quoted column_name @ '' removed successfully!'') w')))))))"

text \<open>
  The inner loop of \<^verbatim>\<open>search_students\<close> over the criteria, for one student: the
  value of \<open>matches_all\<close> when the loop ends or breaks, and the warnings printed.
\<close>

fun matches_all :: "pyval \<Rightarrow> (string \<times> string) list \<Rightarrow> world \<Rightarrow> (exn + bool) \<times> world" where
  "matches_all student [] w = (Inr True, w)"
| "matches_all student ((field_name, v) # rest) w =
     (case py_in field_name student of
        Inl e \<Rightarrow> (Inl e, w)
      | Inr present \<Rightarrow>
          if \<not> present
          then (Inr False,
                print (''Warning: Field '' @ quoted field_name @ '' not found in student records'') w)
          else
            (case py_getitem student field_name of
               Inl e \<Rightarrow> (Inl e, w)
             | Inr x \<Rightarrow>
                 if \<not> str_contains (lower v) (lower (str x)) then (Inr False, w)
                 else matches_all student rest w))"

fun filter_students ::
  "pyval list \<Rightarrow> (string \<times> string) list \<Rightarrow> pyval list \<Rightarrow> world \<Rightarrow> (exn + pyval list) \<times> world" where
  "filter_students [] search_criteria filtered_students w = (Inr filtered_students, w)"
| "filter_students (student # rest) search_criteria filtered_students w =
     (case matches_all student search_criteria w of
        (Inl e, w') \<Rightarrow> (Inl e, w')
      | (Inr m, w') \<Rightarrow>
          filter_students rest search_criteria
            (if m then filtered_students @ [student] else filtered_students) w')"

definition search_students :: "sms \<Rightarrow> world \<Rightarrow> (string \<times> string) list \<Rightarrow> unit outcome" where
  "search_students self w search_criteria =
     (case filename self of
        None \<Rightarrow> (Inl not_set, self, w)
      | Some f \<Rightarrow>
          if f = [] then (Inl not_set, self, w)
          else
            (case load_students self w of
               Inl e \<Rightarrow> (Inl e, self, w)
             | Inr students \<Rightarrow>
                 if \<not> truthy students then (Inr (), self, print ''No students found!'' w)
                 else
                   (case py_iter students of
                      Inl e \<Rightarrow> (Inl e, self, w)
                    | Inr xs \<Rightarrow>
                        (case filter_students xs search_criteria [] w of
                           (Inl e, w') \<Rightarrow> (Inl e, self, w')
                         | (Inr filtered_students, w') \<Rightarrow>
                             if filtered_students = []
                             then (Inr (), self, print ''No matching students found!'' w')
                             else
                               (case table_data (headers self) filtered_students of
                                  Inl e \<Rightarrow> (Inl e, self, w')
                                | Inr rows \<Rightarrow>
                                    (Inr (), self,
                                     w'\<lparr>stdout := stdout w' @ [Print (CHR 0x0A # ''Search Results:''),
                                                               Tabulate rows (headers self)]\<rparr>))))))"

section \<open>The states an object can be in\<close>

text \<open>
  An object starts as \<^verbatim>\<open>__init__\<close> leaves it and changes only through its methods.
  The world of each call is arbitrary: the files may have been changed by anyone between
  two calls.
\<close>

inductive reachable :: "sms \<Rightarrow> bool" where
  start: "reachable init"
| after_set_file_path:
    "reachable self \<Longrightarrow> set_file_path self w file_path = (r, self', w') \<Longrightarrow> reachable self'"
| after_add_student:
    "reachable self \<Longrightarrow> add_student self w student_data = (r, self', w') \<Longrightarrow> reachable self'"
| after_view_all_students:
    "reachable self \<Longrightarrow> view_all_students self w = (r, self', w') \<Longrightarrow> reachable self'"
| after_view_specific_columns:
    "reachable self \<Longrightarrow> view_specific_columns self w columns = (r, self', w') \<Longrightarrow> reachable self'"
| after_update_student:
    "reachable self \<Longrightarrow> update_student self w student_id updated_data = (r, self', w')
       \<Longrightarrow> reachable self'"
| after_delete_student:
    "reachable self \<Longrightarrow> delete_student self w student_id = (r, self', w') \<Longrightarrow> reachable self'"
| after_add_column:
    "reachable self \<Longrightarrow> add_column self w column_name = (r, self', w') \<Longrightarrow> reachable self'"
| after_remove_column:
    "reachable self \<Longrightarrow> remove_column self w column_name = (r, self', w') \<Longrightarrow> reachable self'"
| after_search_students:
    "reachable self \<Longrightarrow> search_students self w search_criteria = (r, self', w') \<Longrightarrow> reachable self'"

definition w0 :: world where
  "w0 = \<lparr> files = Map.empty, cwd = ''/home/u'', stdout = [] \<rparr>"

section \<open>Records and stores of the examples\<close>

definition ann :: pydict where
  "ann = [(Some ''id'', PStr ''1''), (Some ''name'', PStr ''Ann''), (Some ''age'', PStr ''20''),
          (Some ''grade'', PStr ''A'')]"

definition no_grade :: pydict where
  "no_grade = [(Some ''id'', PStr ''1''), (Some ''name'', PStr ''Ann''), (Some ''age'', PStr ''20'')]"

section \<open>Theorems\<close>

subsection \<open>Validation\<close>

lemma list_all_contains:
  "list_all (\<lambda>key. dict_contains (Some key) d) hs \<longleftrightarrow> (\<forall>h\<in>set hs. dict_contains (Some h) d)"
  by (simp add: list_all_iff)

lemma age_check_str:
  "age_check (PStr a) =
     (if \<exists>k. int_of_str a = Inr k \<and> 5 \<le> k \<and> k \<le> 100 then Inr ()
      else Inl (ValueError ''Age must be a valid number''))"
proof (cases "int_of_str a")
  case (Inl e)
  then have "\<exists>m. e = ValueError m"
    by (auto simp: int_of_str_def invalid_literal_def exceeds_limit_def Let_def
        split: if_splits option.splits)
  with Inl show ?thesis by (auto simp: age_check_def age_try_def)
next
  case (Inr k)
  then show ?thesis by (auto simp: age_check_def age_try_def)
qed

text \<open>A record that lacks a column of the schema is refused, whatever else it holds.\<close>

lemma validate_missing:
  assumes "h \<in> set (headers self)" and "\<not> dict_contains (Some h) r"
  shows "validate_student_data self r =
           Inl (ValueError (''All fields '' @ repr (PList (map PStr (headers self))) @ '' are required''))"
proof -
  from assms have "\<not> list_all (\<lambda>key. dict_contains (Some key) r) (headers self)"
    by (auto simp: list_all_contains)
  then show ?thesis by (simp add: validate_student_data_def del: repr.simps)
qed

lemma validate_chain:
  assumes "map_of r (Some ''id'') = Some (PStr i)"
    and "map_of r (Some ''name'') = Some (PStr n)"
    and "map_of r (Some ''age'') = Some (PStr a)"
    and "map_of r (Some ''grade'') = Some (PStr g)"
  shows "validate_student_data self r =
           (if \<exists>h\<in>set (headers self). \<not> dict_contains (Some h) r
            then Inl (ValueError (''All fields '' @ repr (PList (map PStr (headers self))) @ '' are required''))
            else if i = [] then Inl (ValueError ''ID must be a non-empty string'')
            else if n = [] then Inl (ValueError ''Name must be a non-empty string'')
            else if \<not> (\<exists>k. int_of_str a = Inr k \<and> 5 \<le> k \<and> k \<le> 100)
            then Inl (ValueError ''Age must be a valid number'')
            else if g \<notin> {''A'', ''B'', ''C'', ''D'', ''F''}
            then Inl (ValueError ''Grade must be one of: A, B, C, D, F'')
            else Inr True)"
proof -
  define age_ok where "age_ok \<longleftrightarrow> (\<exists>k. int_of_str a = Inr k \<and> 5 \<le> k \<and> k \<le> 100)"
  define missing where "missing \<longleftrightarrow> (\<exists>h\<in>set (headers self). \<not> dict_contains (Some h) r)"
  have ac: "age_check (PStr a) =
      (if age_ok then Inr () else Inl (ValueError ''Age must be a valid number''))"
    by (simp only: age_check_str age_ok_def)
  have la: "list_all (\<lambda>key. dict_contains (Some key) r) (headers self) \<longleftrightarrow> \<not> missing"
    by (simp add: list_all_contains missing_def)
  have "validate_student_data self r =
           (if missing
            then Inl (ValueError (''All fields '' @ repr (PList (map PStr (headers self))) @ '' are required''))
            else if i = [] then Inl (ValueError ''ID must be a non-empty string'')
            else if n = [] then Inl (ValueError ''Name must be a non-empty string'')
            else if \<not> age_ok
            then Inl (ValueError ''Age must be a valid number'')
            else if g \<notin> {''A'', ''B'', ''C'', ''D'', ''F''}
            then Inl (ValueError ''Grade must be one of: A, B, C, D, F'')
            else Inr True)"
    unfolding validate_student_data_def la
    using assms
    by (simp add: andthen_def dict_getitem_def ac grades_def del: repr.simps)
  then show ?thesis by (simp only: age_ok_def missing_def)
qed

text \<open>
  Claim C1. A record that lacks any column of the schema is refused with the
  \<^verbatim>\<open>ValueError\<close> that lists the required fields: no assumption is made on the record,
  so under the default schema this covers every record without id, name, age or grade.
  For a record that holds the four built-in keys with string values, validation
  succeeds exactly when every schema column is present, id and name are non-empty, the
  age parses as an integer from 5 to 100, and the grade is one of A, B, C, D, F;
  otherwise it raises \<^verbatim>\<open>ValueError\<close> with the message of the first check that fails:
  the missing column, then id, name, age and grade in this order. An age out of range
  raises inside the \<^verbatim>\<open>try\<close> block, so it ends with the same message as an age that does
  not parse.
\<close>

theorem validate_string_record:
  "((\<exists>h\<in>set (headers self). \<not> dict_contains (Some h) r) \<longrightarrow>
      validate_student_data self r =
        Inl (ValueError (''All fields '' @ repr (PList (map PStr (headers self))) @ '' are required''))) \<and>
   (map_of r (Some ''id'') = Some (PStr i) \<and> map_of r (Some ''name'') = Some (PStr n) \<and>
    map_of r (Some ''age'') = Some (PStr a) \<and> map_of r (Some ''grade'') = Some (PStr g) \<longrightarrow>
      (validate_student_data self r = Inr True \<longleftrightarrow>
         (\<forall>h\<in>set (headers self). dict_contains (Some h) r) \<and> i \<noteq> [] \<and> n \<noteq> [] \<and>
         (\<exists>k. int_of_str a = Inr k \<and> 5 \<le> k \<and> k \<le> 100) \<and>
         g \<in> {''A'', ''B'', ''C'', ''D'', ''F''}) \<and>
      validate_student_data self r =
        (if \<exists>h\<in>set (headers self). \<not> dict_contains (Some h) r
         then Inl (ValueError (''All fields '' @ repr (PList (map PStr (headers self))) @ '' are required''))
         else if i = [] then Inl (ValueError ''ID must be a non-empty string'')
         else if n = [] then Inl (ValueError ''Name must be a non-empty string'')
         else if \<not> (\<exists>k. int_of_str a = Inr k \<and> 5 \<le> k \<and> k \<le> 100)
         then Inl (ValueError ''Age must be a valid number'')
         else if g \<notin> {''A'', ''B'', ''C'', ''D'', ''F''}
         then Inl (ValueError ''Grade must be one of: A, B, C, D, F'')
         else Inr True))"
proof (intro conjI impI)
  assume "\<exists>h\<in>set (headers self). \<not> dict_contains (Some h) r"
  then show "validate_student_data self r =
        Inl (ValueError (''All fields '' @ repr (PList (map PStr (headers self))) @ '' are required''))"
    using validate_missing by blast
next
  assume keys: "map_of r (Some ''id'') = Some (PStr i) \<and> map_of r (Some ''name'') = Some (PStr n) \<and>
    map_of r (Some ''age'') = Some (PStr a) \<and> map_of r (Some ''grade'') = Some (PStr g)"
  define age_ok where "age_ok \<longleftrightarrow> (\<exists>k. int_of_str a = Inr k \<and> 5 \<le> k \<and> k \<le> 100)"
  define missing where "missing \<longleftrightarrow> (\<exists>h\<in>set (headers self). \<not> dict_contains (Some h) r)"
  have all: "(\<forall>h\<in>set (headers self). dict_contains (Some h) r) \<longleftrightarrow> \<not> missing"
    by (simp add: missing_def)
  from keys have chain: "validate_student_data self r =
        (if missing
         then Inl (ValueError (''All fields '' @ repr (PList (map PStr (headers self))) @ '' are required''))
         else if i = [] then Inl (ValueError ''ID must be a non-empty string'')
         else if n = [] then Inl (ValueError ''Name must be a non-empty string'')
         else if \<not> age_ok
         then Inl (ValueError ''Age must be a valid number'')
         else if g \<notin> {''A'', ''B'', ''C'', ''D'', ''F''}
         then Inl (ValueError ''Grade must be one of: A, B, C, D, F'')
         else Inr True)"
    unfolding age_ok_def missing_def by (intro validate_chain) simp_all
  show "validate_student_data self r = Inr True \<longleftrightarrow>
         (\<forall>h\<in>set (headers self). dict_contains (Some h) r) \<and> i \<noteq> [] \<and> n \<noteq> [] \<and>
         (\<exists>k. int_of_str a = Inr k \<and> 5 \<le> k \<and> k \<le> 100) \<and>
         g \<in> {''A'', ''B'', ''C'', ''D'', ''F''}"
    unfolding age_ok_def [symmetric] all by (simp add: chain)
  show "validate_student_data self r =
        (if \<exists>h\<in>set (headers self). \<not> dict_contains (Some h) r
         then Inl (ValueError (''All fields '' @ repr (PList (map PStr (headers self))) @ '' are required''))
         else if i = [] then Inl (ValueError ''ID must be a non-empty string'')
         else if n = [] then Inl (ValueError ''Name must be a non-empty string'')
         else if \<not> (\<exists>k. int_of_str a = Inr k \<and> 5 \<le> k \<and> k \<le> 100)
         then Inl (ValueError ''Age must be a valid number'')
         else if g \<notin> {''A'', ''B'', ''C'', ''D'', ''F''}
         then Inl (ValueError ''Grade must be one of: A, B, C, D, F'')
         else Inr True)"
    unfolding age_ok_def [symmetric] missing_def [symmetric] by (rule chain)
qed

lemma int_of_str_20: "int_of_str ''20'' = Inr 20"
  by (simp add: int_of_str_def int_space_def ord_def is_digit_def digit_value_def int_max_str_digits_def)

text \<open>
  Witness for C1: the record of the spec's example passes, and the same record without
  its grade is refused for the missing field under the default schema.
\<close>

theorem validate_string_record_witness:
  "validate_student_data init ann = Inr True \<and>
   validate_student_data init no_grade =
     Inl (ValueError (''All fields '' @ repr (PList (map PStr (headers init))) @ '' are required''))"
proof -
  have "validate_student_data init ann = Inr True"
    using validate_string_record [of init ann "''1''" "''Ann''" "''20''" "''A''"]
    by (simp add: ann_def init_def dict_contains_def int_of_str_20)
  moreover have "validate_student_data init no_grade =
     Inl (ValueError (''All fields '' @ repr (PList (map PStr (headers init))) @ '' are required''))"
    using validate_string_record [of init no_grade]
    by (simp add: no_grade_def init_def dict_contains_def del: repr.simps)
  ultimately show ?thesis by simp
qed

subsection \<open>Binding a file\<close>





subsection \<open>Calls before a path is set\<close>

text \<open>
  Claim C5. On a new object, in any world, three methods test \<open>filename\<close> first and
  raise the \<^verbatim>\<open>ValueError\<close> that asks for \<^verbatim>\<open>set_file_path\<close>. The five others have
  no such test: they reach \<^verbatim>\<open>os.path.getsize(None)\<close> or \<^verbatim>\<open>open(None)\<close> and leave
  with a \<^verbatim>\<open>TypeError\<close>.
\<close>

theorem unconfigured_operations:
  "update_student init w student_id updated_data \<noteq> (Inl not_set, init, w) \<and>
   (\<exists>m. update_student init w student_id updated_data = (Inl (TypeError m), init, w)) \<and>
   (\<exists>m. delete_student init w student_id = (Inl (TypeError m), init, w)) \<and>
   (\<exists>m. view_specific_columns init w columns = (Inl (TypeError m), init, w)) \<and>
   (\<exists>m. add_column init w ''email'' = (Inl (TypeError m), init, w)) \<and>
   (\<exists>m. remove_column init w ''name'' = (Inl (TypeError m), init, w)) \<and>
   add_student init w student_data = (Inl not_set, init, w) \<and>
   view_all_students init w = (Inl not_set, init, w) \<and>
   search_students init w search_criteria = (Inl not_set, init, w)"
  by (simp add: update_student_def delete_student_def view_specific_columns_def add_column_def
      remove_column_def add_student_def view_all_students_def search_students_def
      load_students_def read_json_file_def getsize_def open_read_def init_def andthen_def
      not_set_def not_a_path_def lower_def lower_char_def ord_def)

subsection \<open>The schema\<close>

lemma headers_create_file: "create_file_if_not_exists self w = (r, self', w') \<Longrightarrow> self' = self"
  by (auto simp: create_file_if_not_exists_def split: option.splits if_splits)

lemma headers_set_file_path:
  "set_file_path self w file_path = (r, self', w') \<Longrightarrow> headers self' = headers self"
  by (auto simp: set_file_path_def Let_def dest!: headers_create_file split: if_splits)

lemma headers_add_student:
  "add_student self w student_data = (r, self', w') \<Longrightarrow> self' = self"
  by (auto simp: add_student_def split: option.splits if_splits sum.splits prod.splits)

lemma headers_view_all_students:
  "view_all_students self w = (r, self', w') \<Longrightarrow> self' = self"
  by (auto simp: view_all_students_def split: option.splits if_splits sum.splits prod.splits)

lemma headers_view_specific_columns:
  "view_specific_columns self w columns = (r, self', w') \<Longrightarrow> self' = self"
  by (auto simp: view_specific_columns_def split: option.splits if_splits sum.splits prod.splits)

lemma headers_update_student:
  "update_student self w student_id updated_data = (r, self', w') \<Longrightarrow> self' = self"
  by (auto simp: update_student_def split: option.splits if_splits sum.splits prod.splits)

lemma headers_delete_student:
  "delete_student self w student_id = (r, self', w') \<Longrightarrow> self' = self"
  by (auto simp: delete_student_def split: option.splits if_splits sum.splits prod.splits)

lemma headers_search_students:
  "search_students self w search_criteria = (r, self', w') \<Longrightarrow> self' = self"
  by (auto simp: search_students_def split: option.splits if_splits sum.splits prod.splits)

lemma headers_add_column:
  "add_column self w column_name = (r, self', w') \<Longrightarrow>
     headers self' = headers self \<or> headers self' = headers self @ [lower column_name]"
  by (auto simp: add_column_def Let_def split: option.splits if_splits sum.splits prod.splits)

lemma headers_remove_column:
  "remove_column self w column_name = (r, self', w') \<Longrightarrow>
     headers self' = headers self \<or>
     (column_name \<noteq> ''id'' \<and> headers self' = remove1 column_name (headers self))"
  by (auto simp: remove_column_def Let_def split: option.splits if_splits sum.splits prod.splits)

text \<open>In every state of the object the schema starts with the column \<^verbatim>\<open>id\<close>.\<close>

lemma reachable_id_first: "reachable self \<Longrightarrow> headers self \<noteq> [] \<and> hd (headers self) = ''id''"
proof (induction rule: reachable.induct)
  case start
  then show ?case by (simp add: init_def)
next
  case (after_add_column self w column_name r self' w')
  from headers_add_column [OF after_add_column.hyps(2)] after_add_column.IH
  show ?case by auto
next
  case (after_remove_column self w column_name r self' w')
  from headers_remove_column [OF after_remove_column.hyps(2)] after_remove_column.IH
  show ?case by (cases "headers self") auto
qed (auto dest: headers_set_file_path headers_add_student headers_view_all_students
      headers_view_specific_columns headers_update_student headers_delete_student
      headers_search_students)

text \<open>
  Claim C6. In every state the object can be in, and whatever the files hold,
  \<^verbatim>\<open>remove_column("id")\<close> prints that the column cannot be removed and changes neither
  the schema nor any file.
\<close>

theorem remove_column_id:
  assumes "reachable self"
  shows "remove_column self w ''id'' = (Inr (), self, print ''Cannot remove ID column!'' w)"
proof -
  from reachable_id_first [OF assms] have "''id'' \<in> set (headers self)"
    by (cases "headers self") auto
  then show ?thesis by (simp add: remove_column_def)
qed

text \<open>Witness for C6: the initial state.\<close>

theorem remove_column_id_witness:
  "remove_column init w0 ''id'' = (Inr (), init, print ''Cannot remove ID column!'' w0)"
  using remove_column_id [OF reachable.start, of w0] .

text \<open>
  Claim C7. When the name, in lower case, equals an existing column in lower case,
  \<^verbatim>\<open>add_column\<close> prints that the column exists and changes neither the schema nor any
  file.
\<close>

theorem add_column_existing:
  assumes "lower column_name \<in> set (map lower (headers self))"
  shows "add_column self w column_name = (Inr (), self, print ''Column already exists!'' w)"
  using assms by (simp add: add_column_def Let_def)

lemma lower_Grade: "lower ''Grade'' = ''grade''"
  by code_simp

lemma lower_headers_init: "map lower (headers init) = [''id'', ''name'', ''age'', ''grade'']"
  by (simp add: init_def lower_def lower_char_def ord_def chr_def)

text \<open>Witness for C7: the example of the spec, \<^verbatim>\<open>Grade\<close> when \<^verbatim>\<open>grade\<close> exists.\<close>

theorem add_column_existing_witness:
  "add_column init w0 ''Grade'' = (Inr (), init, print ''Column already exists!'' w0)"
  using add_column_existing [of "''Grade''" init w0]
  by (simp add: lower_Grade lower_headers_init)

end
